theory Spec2Isabelle
  imports Complex_Main
begin

section \<open>Data model\<close>

text \<open>
  The flow engine of DoHlyzer (\<^verbatim>\<open>Flow.py\<close>) and its timing analyser
  (\<^verbatim>\<open>ContElements/TimeDiff.py\<close>).

  Numbers. Python floats and numpy compute in IEEE double precision and round every
  intermediate result. The model computes with exact real numbers: each arithmetic
  result here is the unrounded value that the source's result approximates. Statements
  about guards, marker values, the order and origin of the series' elements, and the
  way one operation is built from another do not depend on the rounding; the decimal
  digits that the source prints for a computed statistic are not given by this model.
  The integer literals \<^verbatim>\<open>-1\<close> and \<^verbatim>\<open>-10\<close> that the source returns as markers
  are the reals of the same value.
\<close>

text \<open>
  A captured packet. The flow engine reads one attribute of it, \<^verbatim>\<open>packet.time\<close>;
  everything else a packet carries lives in the record's extension.
\<close>

record packet =
  time :: real

text \<open>
  Modelled from the spec: the enumeration \<^verbatim>\<open>PacketDirection\<close> of
  \<^verbatim>\<open>ContElements/Context/PacketDirection.py\<close>, which the analysed files import and
  compare against. The spec describes it as a two-valued tag, Forward or Reverse.
\<close>

datatype PacketDirection = FORWARD | REVERSE

text \<open>
  \<^verbatim>\<open>class Flow\<close>: the attributes that \<^verbatim>\<open>__init__\<close> sets. The endpoint key is
  computed by a collaborator (\<^verbatim>\<open>PacketFlowKey\<close>) and only stored here.
\<close>

record flow =
  dest_ip :: string
  src_ip :: string
  src_port :: nat
  dest_port :: nat
  packets :: "(packet \<times> PacketDirection) list"
  interface :: string
  latest_timestamp :: real

text \<open>
  \<^verbatim>\<open>Flow.add_packet\<close>:
  \<^verbatim>\<open>self.packets.append((packet, direction))\<close> and then
  \<^verbatim>\<open>self.latest_timestamp = max([packet.time, self.latest_timestamp])\<close>.
\<close>

definition add_packet :: "flow \<Rightarrow> packet \<Rightarrow> PacketDirection \<Rightarrow> flow" where
  "add_packet self pkt direction =
     (let self1 = self\<lparr>packets := packets self @ [(pkt, direction)]\<rparr>
      in self1\<lparr>latest_timestamp := max (time pkt) (latest_timestamp self1)\<rparr>)"

section \<open>The timing analyser\<close>

text \<open>
  \<^verbatim>\<open>class TimeDiff\<close>: an instance holds the flow it summarises in its only slot,
  \<^verbatim>\<open>feature\<close>.
\<close>

record TimeDiff =
  feature :: flow

text \<open>
  \<^verbatim>\<open>TimeDiff.get_dif\<close>. The loop walks the packets in list order and remembers the
  previous iteration in \<^verbatim>\<open>temp_packet\<close> and \<^verbatim>\<open>temp_direction\<close>. Both start as
  \<^verbatim>\<open>None\<close> and are assigned together at the end of every iteration, so the model
  keeps them as one optional pair \<open>temp\<close>. The accumulator \<open>time_diff\<close> grows at its
  end, as \<^verbatim>\<open>append\<close> does.
\<close>

fun get_dif_loop ::
  "(packet \<times> PacketDirection) list \<Rightarrow> real list \<Rightarrow> (packet \<times> PacketDirection) option \<Rightarrow> real list"
where
  "get_dif_loop [] time_diff temp = time_diff"
| "get_dif_loop ((pkt, direction) # rest) time_diff temp =
     get_dif_loop rest
       (case temp of
          None \<Rightarrow> time_diff
        | Some (temp_packet, temp_direction) \<Rightarrow>
            if temp_direction = FORWARD \<and> direction = REVERSE
            then time_diff @ [time pkt - time temp_packet]
            else time_diff)
       (Some (pkt, direction))"

definition get_dif :: "TimeDiff \<Rightarrow> real list" where
  "get_dif self = get_dif_loop (packets (feature self)) [] None"

text \<open>
  The spec's wording of the timing series, for comparison with the loop: the adjacent
  pairs of the packet list in arrival order are \<open>zip ps (tl ps)\<close>; those whose first
  packet travels Forward and whose second travels Reverse are kept, and each contributes
  the second timestamp minus the first.
\<close>

definition adjacent_pairs :: "'a list \<Rightarrow> ('a \<times> 'a) list" where
  "adjacent_pairs ps = zip ps (tl ps)"

definition is_forward_then_reverse ::
  "(packet \<times> PacketDirection) \<times> (packet \<times> PacketDirection) \<Rightarrow> bool" where
  "is_forward_then_reverse pr = (snd (fst pr) = FORWARD \<and> snd (snd pr) = REVERSE)"

definition timing_series_spec :: "(packet \<times> PacketDirection) list \<Rightarrow> real list" where
  "timing_series_spec ps =
     map (\<lambda>pr. time (fst (snd pr)) - time (fst (fst pr)))
       (filter is_forward_then_reverse (adjacent_pairs ps))"

subsection \<open>Library functions the analyser calls\<close>

text \<open>
  numpy and scipy are not part of the repository; the functions the analyser calls
  are written out from their documented behaviour on a one-dimensional list, in exact
  arithmetic.

  \<^verbatim>\<open>numpy.mean\<close>: the sum of the elements divided by their number.
  \<^verbatim>\<open>numpy.var\<close> (with its default \<^verbatim>\<open>ddof=0\<close>): the mean of the squared absolute
  deviations from the mean, that is the population variance. numpy rounds the
  deviations, their squares, the sum and the quotient to doubles; \<open>numpy_var\<close> is the
  value before any rounding.
  \<^verbatim>\<open>numpy.sqrt\<close>: the non-negative square root (the analyser only applies it to a
  variance). numpy returns the double nearest to the root; \<open>numpy_sqrt\<close> is the root
  itself.
  \<^verbatim>\<open>numpy.median\<close>: the middle element of the sorted list, or the mean of the two
  middle elements when the length is even; on an empty list numpy yields \<^verbatim>\<open>nan\<close>,
  which is no number, modelled by \<open>None\<close>.
\<close>

definition numpy_mean :: "real list \<Rightarrow> real" where
  "numpy_mean a = sum_list a / real (length a)"

definition numpy_var :: "real list \<Rightarrow> real" where
  "numpy_var a = numpy_mean (map (\<lambda>x. \<bar>x - numpy_mean a\<bar> ^ 2) a)"

definition numpy_sqrt :: "real \<Rightarrow> real" where
  "numpy_sqrt x = sqrt x"

definition numpy_median :: "real list \<Rightarrow> real option" where
  "numpy_median a =
     (let srt = sort a; n = length srt
      in if n = 0 then None
         else if odd n then Some (srt ! (n div 2))
         else Some (numpy_mean [srt ! (n div 2 - 1), srt ! (n div 2)]))"

text \<open>
  \<^verbatim>\<open>scipy.stats.mode\<close>: it goes through the distinct values in increasing order
  (\<^verbatim>\<open>numpy.unique\<close>), counts each one's occurrences, and replaces the candidate only
  when the count is strictly greater than the best count so far. The candidate and the
  best count both start at zero.
\<close>

fun mode_loop :: "real list \<Rightarrow> real list \<Rightarrow> real \<Rightarrow> nat \<Rightarrow> real" where
  "mode_loop a [] oldmostfreq oldcounts = oldmostfreq"
| "mode_loop a (score # scores) oldmostfreq oldcounts =
     (let counts = count_list a score
      in mode_loop a scores
           (if counts > oldcounts then score else oldmostfreq)
           (max counts oldcounts))"

definition stat_mode :: "real list \<Rightarrow> real" where
  "stat_mode a = mode_loop a (sort (remdups a)) 0 0"

subsection \<open>Statistics of one flow\<close>

text \<open>
  \<^verbatim>\<open>get_var\<close>, \<^verbatim>\<open>get_mean\<close>, \<^verbatim>\<open>get_mode\<close> and \<^verbatim>\<open>get_std\<close> start from \<^verbatim>\<open>-1\<close>
  and replace it when \<^verbatim>\<open>len(self.get_dif()) != 0\<close>.
\<close>

definition get_var :: "TimeDiff \<Rightarrow> real" where
  "get_var self = (if length (get_dif self) \<noteq> 0 then numpy_var (get_dif self) else - 1)"

definition get_mean :: "TimeDiff \<Rightarrow> real" where
  "get_mean self = (if length (get_dif self) \<noteq> 0 then numpy_mean (get_dif self) else - 1)"

definition get_median :: "TimeDiff \<Rightarrow> real option" where
  "get_median self = numpy_median (get_dif self)"

definition get_mode :: "TimeDiff \<Rightarrow> real" where
  "get_mode self = (if length (get_dif self) \<noteq> 0 then stat_mode (get_dif self) else - 1)"

definition get_std :: "TimeDiff \<Rightarrow> real" where
  "get_std self = (if length (get_dif self) \<noteq> 0 then numpy_sqrt (get_var self) else - 1)"

text \<open>
  \<^verbatim>\<open>get_skew\<close>: \<^verbatim>\<open>dif = 3 * (mean - median)\<close>, and \<^verbatim>\<open>skew = dif / std\<close> unless
  \<^verbatim>\<open>std\<close> is zero, when the result stays \<^verbatim>\<open>-10\<close>. A median that is no number
  makes \<^verbatim>\<open>dif\<close> and the quotient no number. The division is guarded by the test,
  so it cannot fail.
\<close>

definition get_skew :: "TimeDiff \<Rightarrow> real option" where
  "get_skew self =
     (let mean = get_mean self;
          median = get_median self;
          dif = map_option (\<lambda>md. 3 * (mean - md)) median;
          std = get_std self
      in if std \<noteq> 0 then map_option (\<lambda>d. d / std) dif else Some (- 10))"

definition get_skew2 :: "TimeDiff \<Rightarrow> real" where
  "get_skew2 self =
     (let mean = get_mean self;
          mode = get_mode self;
          dif = mean - mode;
          std = get_std self
      in if std \<noteq> 0 then dif / std else - 10)"

definition get_cov :: "TimeDiff \<Rightarrow> real" where
  "get_cov self = (if get_mean self \<noteq> 0 then get_std self / get_mean self else - 1)"

subsection \<open>The grand mean across flows\<close>

text \<open>
  The class attributes \<^verbatim>\<open>TimeDiff.mean_count\<close> and \<^verbatim>\<open>TimeDiff.grand_total\<close> are
  shared by all instances and start at \<^verbatim>\<open>0\<close>; \<^verbatim>\<open>TimeDiff.grand_mean\<close> does not
  exist until \<^verbatim>\<open>get_grand_mean\<close> assigns it. The model passes this state in and
  returns it updated.
\<close>

record TimeDiff_class =
  mean_count :: int
  grand_total :: real
  grand_mean :: "real option"

definition TimeDiff_class_initial :: TimeDiff_class where
  "TimeDiff_class_initial = \<lparr>mean_count = 0, grand_total = 0, grand_mean = None\<rparr>"

datatype py_error = ZeroDivisionError

text \<open>Python's \<^verbatim>\<open>/\<close>, which raises on a zero divisor.\<close>

definition truediv :: "real \<Rightarrow> real \<Rightarrow> py_error + real" where
  "truediv a b = (if b = 0 then Inl ZeroDivisionError else Inr (a / b))"

text \<open>
  \<^verbatim>\<open>TimeDiff._get_grand_total\<close> (an Isabelle name cannot start with an underscore).
  It returns the new total together with the updated class state.
\<close>

definition get_grand_total :: "TimeDiff_class \<Rightarrow> TimeDiff \<Rightarrow> real \<times> TimeDiff_class" where
  "get_grand_total cls self =
     (let cls1 = (if mean_count cls = 0
                  then cls\<lparr>grand_total := get_mean self - get_mean self\<rparr>
                  else cls\<lparr>grand_total := grand_total cls + get_mean self\<rparr>);
          cls2 = cls1\<lparr>mean_count := mean_count cls1 + 1\<rparr>
      in (grand_total cls2, cls2))"

text \<open>
  \<^verbatim>\<open>TimeDiff.get_grand_mean\<close>. The test reads \<^verbatim>\<open>mean_count\<close> before the call of
  \<^verbatim>\<open>_get_grand_total\<close>. In the quotient, Python evaluates the left operand first, so
  the divisor reads \<^verbatim>\<open>mean_count\<close> after that call has incremented it. When the
  division raises, the assignment to \<^verbatim>\<open>grand_mean\<close> does not happen, and the state is
  the one left by \<^verbatim>\<open>_get_grand_total\<close>.
\<close>

definition get_grand_mean ::
  "TimeDiff_class \<Rightarrow> TimeDiff \<Rightarrow> (py_error + real) \<times> TimeDiff_class" where
  "get_grand_mean cls self =
     (if mean_count cls > 1
      then (case get_grand_total cls self of
              (new_total, cls1) \<Rightarrow>
                (case truediv new_total (of_int (mean_count cls1 - 1)) of
                   Inl e \<Rightarrow> (Inl e, cls1)
                 | Inr q \<Rightarrow> (Inr q, cls1\<lparr>grand_mean := Some q\<rparr>)))
      else (case get_grand_total cls self of
              (new_total, cls1) \<Rightarrow>
                (case truediv new_total (of_int (mean_count cls1)) of
                   Inl e \<Rightarrow> (Inl e, cls1)
                 | Inr q \<Rightarrow> (Inr q, cls1\<lparr>grand_mean := Some q\<rparr>))))"

section \<open>Example flows\<close>

text \<open>
  \<^verbatim>\<open>Flow.__init__\<close> stores the endpoint key (computed by the collaborator
  \<^verbatim>\<open>PacketFlowKey\<close>, here a parameter) and the interface, and starts with no packets
  and \<^verbatim>\<open>latest_timestamp = 0\<close>.
\<close>

definition Flow_init :: "string \<times> string \<times> nat \<times> nat \<Rightarrow> string \<Rightarrow> flow" where
  "Flow_init key iface =
     (case key of (d_ip, s_ip, s_port, d_port) \<Rightarrow>
        \<lparr>dest_ip = d_ip, src_ip = s_ip, src_port = s_port, dest_port = d_port,
         packets = [], interface = iface, latest_timestamp = 0\<rparr>)"

text \<open>
  A flow built the way the sniffer builds one: created by \<open>Flow_init\<close>, then fed the
  packets with the given timestamps and directions, one \<open>add_packet\<close> at a time. The
  analyser over such a flow is \<open>analyser\<close>.
\<close>

definition feed :: "flow \<Rightarrow> (real \<times> PacketDirection) list \<Rightarrow> flow" where
  "feed f arrivals = fold (\<lambda>(t, d) g. add_packet g \<lparr>time = t\<rparr> d) arrivals f"

definition analyser :: "(real \<times> PacketDirection) list \<Rightarrow> TimeDiff" where
  "analyser arrivals =
     \<lparr>feature = feed (Flow_init (''10.0.0.2'', ''10.0.0.1'', 40000, 443) ''enp0s3'') arrivals\<rparr>"

section \<open>The timing series\<close>

lemma adjacent_pairs_Cons2:
  "adjacent_pairs (a # b # rest) = (a, b) # adjacent_pairs (b # rest)"
  by (simp add: adjacent_pairs_def)

lemma adjacent_pairs_nth:
  "adjacent_pairs ps = map (\<lambda>i. (ps ! i, ps ! Suc i)) [0..<length ps - 1]"
  by (rule nth_equalityI) (simp_all add: adjacent_pairs_def nth_tl)

lemma get_dif_loop_Some:
  "get_dif_loop rest acc (Some prev) = acc @ timing_series_spec (prev # rest)"
proof (induction rest arbitrary: acc prev)
  case Nil
  show ?case by (simp add: timing_series_spec_def adjacent_pairs_def)
next
  case (Cons cur rest)
  obtain pkt direction where cur: "cur = (pkt, direction)" by (cases cur)
  obtain temp_packet temp_direction where prev: "prev = (temp_packet, temp_direction)"
    by (cases prev)
  have step: "timing_series_spec ((temp_packet, temp_direction) # (pkt, direction) # rest) =
      (if temp_direction = FORWARD \<and> direction = REVERSE
       then [time pkt - time temp_packet] else []) @ timing_series_spec ((pkt, direction) # rest)"
    by (simp add: timing_series_spec_def adjacent_pairs_Cons2 is_forward_then_reverse_def)
  have "get_dif_loop (cur # rest) acc (Some prev) =
      get_dif_loop rest
        (if temp_direction = FORWARD \<and> direction = REVERSE
         then acc @ [time pkt - time temp_packet] else acc)
        (Some (pkt, direction))"
    by (simp add: cur prev)
  also have "\<dots> = (if temp_direction = FORWARD \<and> direction = REVERSE
         then acc @ [time pkt - time temp_packet] else acc)
        @ timing_series_spec ((pkt, direction) # rest)"
    by (rule Cons.IH)
  also have "\<dots> = acc @ timing_series_spec (prev # cur # rest)"
    unfolding cur prev step by simp
  finally show ?case .
qed

lemma get_dif_loop_None:
  "get_dif_loop ps [] None = timing_series_spec ps"
proof (cases ps)
  case Nil
  then show ?thesis by (simp add: timing_series_spec_def adjacent_pairs_def)
next
  case (Cons cur rest)
  obtain pkt direction where cur: "cur = (pkt, direction)" by (cases cur)
  show ?thesis
    by (simp add: Cons cur get_dif_loop_Some)
qed

text \<open>
  C5. For every flow the timing series computed by \<open>get_dif\<close> is the spec's series:
  going through the adjacent pairs of the packet list in arrival order (the pairs at
  positions \<open>i\<close> and \<open>i + 1\<close>), every pair of a Forward packet immediately followed by a
  Reverse packet contributes exactly one element, the Reverse timestamp minus the
  Forward timestamp, and every other pair contributes nothing.
\<close>

theorem get_dif_adjacent_forward_reverse:
  "get_dif self = timing_series_spec (packets (feature self))
   \<and> timing_series_spec (packets (feature self)) =
       map (\<lambda>i. time (fst (packets (feature self) ! Suc i)) - time (fst (packets (feature self) ! i)))
         (filter (\<lambda>i. snd (packets (feature self) ! i) = FORWARD
                     \<and> snd (packets (feature self) ! Suc i) = REVERSE)
            [0..<length (packets (feature self)) - 1])"
proof
  show "get_dif self = timing_series_spec (packets (feature self))"
    by (simp add: get_dif_def get_dif_loop_None)
next
  show "timing_series_spec (packets (feature self)) =
       map (\<lambda>i. time (fst (packets (feature self) ! Suc i)) - time (fst (packets (feature self) ! i)))
         (filter (\<lambda>i. snd (packets (feature self) ! i) = FORWARD
                     \<and> snd (packets (feature self) ! Suc i) = REVERSE)
            [0..<length (packets (feature self)) - 1])"
    by (simp add: timing_series_spec_def adjacent_pairs_nth filter_map comp_def
        is_forward_then_reverse_def)
qed

section \<open>Flows built packet by packet\<close>

lemma packets_add_packet: "packets (add_packet f p d) = packets f @ [(p, d)]"
  by (simp add: add_packet_def)

lemma feed_Nil: "feed f [] = f"
  by (simp add: feed_def)

lemma feed_Cons: "feed f ((t, d) # rest) = feed (add_packet f \<lparr>time = t\<rparr> d) rest"
  by (simp add: feed_def)

lemma packets_feed:
  "packets (feed f arrivals) = packets f @ map (\<lambda>(t, d). (\<lparr>time = t\<rparr>, d)) arrivals"
  by (induction arrivals arbitrary: f) (auto simp: feed_Nil feed_Cons packets_add_packet)

lemma packets_analyser:
  "packets (feature (analyser arrivals)) = map (\<lambda>(t, d). (\<lparr>time = t\<rparr>, d)) arrivals"
  by (simp add: analyser_def packets_feed Flow_init_def)

lemma get_dif_analyser:
  "get_dif (analyser arrivals) =
     get_dif_loop (map (\<lambda>(t, d). (\<lparr>time = t\<rparr>, d)) arrivals) [] None"
  by (simp add: get_dif_def packets_analyser)

text \<open>
  C9. \<open>add_packet\<close> puts the pair (packet, direction) at the end of \<open>packets\<close> and
  leaves the packets already there in place and in order; it sets
  \<open>latest_timestamp\<close> to the maximum of its old value and the packet's timestamp, so
  the new value is never below the old one; and every other attribute of the flow is
  unchanged.
\<close>

theorem add_packet_appends_and_keeps_latest:
  "add_packet self pkt direction =
     self\<lparr>packets := packets self @ [(pkt, direction)],
          latest_timestamp := max (latest_timestamp self) (time pkt)\<rparr>
   \<and> packets (add_packet self pkt direction) = packets self @ [(pkt, direction)]
   \<and> take (length (packets self)) (packets (add_packet self pkt direction)) = packets self
   \<and> latest_timestamp (add_packet self pkt direction) = max (latest_timestamp self) (time pkt)
   \<and> latest_timestamp self \<le> latest_timestamp (add_packet self pkt direction)
   \<and> dest_ip (add_packet self pkt direction) = dest_ip self
   \<and> src_ip (add_packet self pkt direction) = src_ip self
   \<and> src_port (add_packet self pkt direction) = src_port self
   \<and> dest_port (add_packet self pkt direction) = dest_port self
   \<and> interface (add_packet self pkt direction) = interface self
   \<and> flow.more (add_packet self pkt direction) = flow.more self"
  by (simp add: add_packet_def Let_def max.commute)

section \<open>The empty series\<close>

lemma empty_series_stats:
  assumes "get_dif self = []"
  shows "get_mean self = - 1" and "get_var self = - 1" and "get_std self = - 1"
    and "get_mode self = - 1"
  using assms by (simp_all add: get_mean_def get_var_def get_std_def get_mode_def)

lemma get_dif_empty_iff:
  "get_dif self = [] \<longleftrightarrow>
     \<not> list_ex is_forward_then_reverse (adjacent_pairs (packets (feature self)))"
  by (simp add: get_dif_def get_dif_loop_None timing_series_spec_def filter_empty_conv
      list_ex_iff)

lemma short_no_pairs: "length ps < 2 \<Longrightarrow> adjacent_pairs ps = []"
  by (cases ps) (auto simp: adjacent_pairs_def)

lemma forward_reverse_pair_iff:
  "list_ex is_forward_then_reverse (adjacent_pairs ps) \<longleftrightarrow>
     (\<exists>i. Suc i < length ps \<and> snd (ps ! i) = FORWARD \<and> snd (ps ! Suc i) = REVERSE)"
proof -
  have "list_ex is_forward_then_reverse (adjacent_pairs ps) \<longleftrightarrow>
      (\<exists>i<length ps - 1. snd (ps ! i) = FORWARD \<and> snd (ps ! Suc i) = REVERSE)"
    by (auto simp: adjacent_pairs_nth list_ex_iff is_forward_then_reverse_def)
  also have "\<dots> \<longleftrightarrow>
      (\<exists>i. Suc i < length ps \<and> snd (ps ! i) = FORWARD \<and> snd (ps ! Suc i) = REVERSE)"
    by (auto simp: less_diff_conv)
  finally show ?thesis .
qed

text \<open>
  C2, as the code has it. When a flow has fewer than two packets, or no Forward packet
  immediately followed by a Reverse packet, its timing series is empty, and mean,
  variance, standard deviation and mode each return \<open>-1\<close>. The coefficient of variation
  returns \<open>1\<close>: its only guard is a mean equal to zero, so it divides the standard
  deviation \<open>-1\<close> by the mean \<open>-1\<close>.
\<close>

theorem empty_series_sentinels:
  assumes "length (packets (feature self)) < 2
     \<or> \<not> (\<exists>i. Suc i < length (packets (feature self))
              \<and> snd (packets (feature self) ! i) = FORWARD
              \<and> snd (packets (feature self) ! Suc i) = REVERSE)"
  shows "get_dif self = [] \<and> get_mean self = - 1 \<and> get_var self = - 1
     \<and> get_std self = - 1 \<and> get_mode self = - 1 \<and> get_cov self = 1"
proof -
  have "get_dif self = []"
    using assms by (auto simp: get_dif_empty_iff short_no_pairs forward_reverse_pair_iff)
  then show ?thesis
    by (simp add: empty_series_stats get_cov_def)
qed

theorem empty_series_sentinels_witness:
  "get_dif (analyser [(5, REVERSE), (6, FORWARD), (7, FORWARD)]) = []
   \<and> get_mean (analyser [(5, REVERSE), (6, FORWARD), (7, FORWARD)]) = - 1
   \<and> get_var (analyser [(5, REVERSE), (6, FORWARD), (7, FORWARD)]) = - 1
   \<and> get_std (analyser [(5, REVERSE), (6, FORWARD), (7, FORWARD)]) = - 1
   \<and> get_mode (analyser [(5, REVERSE), (6, FORWARD), (7, FORWARD)]) = - 1
   \<and> get_cov (analyser [(5, REVERSE), (6, FORWARD), (7, FORWARD)]) = 1
   \<and> get_dif (analyser [(3, FORWARD)]) = []
   \<and> get_cov (analyser [(3, FORWARD)]) = 1"
proof -
  let ?a = "analyser [(5, REVERSE), (6, FORWARD), (7, FORWARD)]"
  have "\<not> list_ex is_forward_then_reverse (adjacent_pairs (packets (feature ?a)))"
    by (simp add: packets_analyser adjacent_pairs_def is_forward_then_reverse_def)
  then have no_pair: "\<not> (\<exists>i. Suc i < length (packets (feature ?a))
      \<and> snd (packets (feature ?a) ! i) = FORWARD
      \<and> snd (packets (feature ?a) ! Suc i) = REVERSE)"
    unfolding forward_reverse_pair_iff .
  have short: "length (packets (feature (analyser [(3, FORWARD)]))) < 2"
    by (simp add: packets_analyser)
  show ?thesis
    using empty_series_sentinels [OF disjI2, OF no_pair]
      empty_series_sentinels [OF disjI1, OF short]
    by simp
qed

text \<open>
  The coefficient of variation of a flow with a single packet, whose timing series is
  empty, is not \<open>-1\<close>.
\<close>

theorem empty_series_cov_counterexample:
  "get_dif (analyser [(3, FORWARD)]) = [] \<and> get_cov (analyser [(3, FORWARD)]) \<noteq> - 1"
  by (simp add: get_cov_def get_mean_def get_std_def get_dif_analyser)

text \<open>
  C10. For every flow whose timing series is empty the mode-based skew returns \<open>0\<close>:
  mean and mode are both \<open>-1\<close>, so their difference is \<open>0\<close>; the standard deviation is
  \<open>-1\<close>, which is not zero, so the division \<open>0 / -1\<close> is performed.
\<close>

theorem skew2_of_empty_series:
  assumes "get_dif self = []"
  shows "get_skew2 self = 0 \<and> get_mean self = - 1 \<and> get_mode self = - 1
     \<and> get_std self = - 1 \<and> get_mean self - get_mode self = 0"
  using assms by (simp add: get_skew2_def empty_series_stats)

theorem skew2_of_empty_series_witness:
  "get_dif (analyser [(1, FORWARD), (2, FORWARD), (4, FORWARD)]) = []
   \<and> get_skew2 (analyser [(1, FORWARD), (2, FORWARD), (4, FORWARD)]) = 0
   \<and> get_std (analyser [(1, FORWARD), (2, FORWARD), (4, FORWARD)]) = - 1"
proof -
  have e: "get_dif (analyser [(1, FORWARD), (2, FORWARD), (4, FORWARD)]) = []"
    by (simp add: get_dif_analyser)
  show ?thesis
    using e skew2_of_empty_series [OF e] by simp
qed

section \<open>The grand mean\<close>

lemma get_grand_total_eq:
  "get_grand_total cls self =
     (if mean_count cls = 0 then 0 else grand_total cls + get_mean self,
      cls\<lparr>grand_total := (if mean_count cls = 0 then 0 else grand_total cls + get_mean self),
          mean_count := mean_count cls + 1\<rparr>)"
  by (simp add: get_grand_total_def Let_def)

lemma get_grand_mean_eq:
  assumes "0 \<le> mean_count cls"
  shows "get_grand_mean cls self =
     (let new_total = (if mean_count cls = 0 then 0 else grand_total cls + get_mean self);
          new_count = mean_count cls + 1;
          q = (if mean_count cls > 1 then new_total / of_int (new_count - 1)
               else new_total / of_int new_count)
      in (Inr q, \<lparr>mean_count = new_count, grand_total = new_total, grand_mean = Some q\<rparr>))"
  using assms
  by (cases cls) (simp add: get_grand_mean_def get_grand_total_eq truediv_def Let_def)





text \<open>
  C3, as the code has it. Asking for the grand mean while the count is still \<open>0\<close> is
  not a failure: \<open>get_grand_mean\<close> folds first, so the divisor is the incremented count
  \<open>1\<close>, and the call returns \<open>0\<close> with total \<open>0\<close> and count \<open>1\<close>. From every state
  whose count is not negative (the initial count is \<open>0\<close> and each call adds one),
  \<open>get_grand_mean\<close> returns a number and no division by zero is raised.
\<close>

theorem grand_mean_never_divides_by_zero:
  assumes "0 \<le> mean_count cls"
  shows "\<not> isl (fst (get_grand_mean cls self))
     \<and> mean_count (snd (get_grand_mean cls self)) = mean_count cls + 1
     \<and> (if mean_count cls = 0
         then get_grand_mean cls self =
                (Inr 0, \<lparr>mean_count = 1, grand_total = 0, grand_mean = Some 0\<rparr>)
         else True)"
  using assms by (simp add: get_grand_mean_eq Let_def)

theorem grand_mean_never_divides_by_zero_witness:
  "\<not> isl (fst (get_grand_mean TimeDiff_class_initial (analyser [(0, FORWARD), (3, REVERSE)])))
   \<and> mean_count (snd (get_grand_mean TimeDiff_class_initial
        (analyser [(0, FORWARD), (3, REVERSE)]))) = 1
   \<and> get_grand_mean TimeDiff_class_initial (analyser [(0, FORWARD), (3, REVERSE)]) =
        (Inr 0, \<lparr>mean_count = 1, grand_total = 0, grand_mean = Some 0\<rparr>)"
proof -
  have count: "0 \<le> mean_count TimeDiff_class_initial"
    by (simp add: TimeDiff_class_initial_def)
  have zero: "mean_count TimeDiff_class_initial = 0"
    by (simp add: TimeDiff_class_initial_def)
  show ?thesis
    using grand_mean_never_divides_by_zero [OF count, of "analyser [(0, FORWARD), (3, REVERSE)]"]
    by (simp add: zero)
qed

text \<open>
  With no fold done yet the call for a flow without packets returns \<open>0\<close>; it raises
  nothing.
\<close>

theorem grand_mean_before_fold_counterexample:
  "mean_count TimeDiff_class_initial = 0
   \<and> get_grand_mean TimeDiff_class_initial (analyser []) =
       (Inr 0, \<lparr>mean_count = 1, grand_total = 0, grand_mean = Some 0\<rparr>)
   \<and> fst (get_grand_mean TimeDiff_class_initial (analyser [])) \<noteq> Inl ZeroDivisionError"
  by (simp add: get_grand_mean_def get_grand_total_def TimeDiff_class_initial_def
      truediv_def Let_def)

section \<open>Variance and standard deviation\<close>

lemma numpy_var_eq:
  "numpy_var a = (\<Sum>x\<leftarrow>a. (x - sum_list a / real (length a))\<^sup>2) / real (length a)"
  by (simp add: numpy_var_def numpy_mean_def)

lemma numpy_var_nonneg: "0 \<le> numpy_var a"
  unfolding numpy_var_eq by (intro divide_nonneg_nonneg sum_list_nonneg) auto

text \<open>In exact arithmetic the variance of a non-empty list is zero exactly when all its
  elements are the same.\<close>

lemma numpy_var_zero_iff:
  assumes "a \<noteq> []"
  shows "numpy_var a = 0 \<longleftrightarrow> (\<forall>x\<in>set a. x = hd a)"
proof
  assume z: "numpy_var a = 0"
  have "(\<Sum>x\<leftarrow>a. (x - numpy_mean a)\<^sup>2) = 0"
    using z assms by (simp add: numpy_var_eq numpy_mean_def)
  then have "\<forall>x\<in>set a. (x - numpy_mean a)\<^sup>2 = 0"
    by (subst (asm) sum_list_nonneg_eq_0_iff) auto
  then have all: "\<forall>x\<in>set a. x = numpy_mean a"
    by simp
  moreover have "hd a = numpy_mean a"
    using all assms by simp
  ultimately show "\<forall>x\<in>set a. x = hd a"
    by simp
next
  assume "\<forall>x\<in>set a. x = hd a"
  then have "a = replicate (length a) (hd a)"
    by (metis replicate_length_same)
  then obtain n v where a: "a = replicate n v"
    by blast
  have "n \<noteq> 0"
    using assms a by auto
  then show "numpy_var a = 0"
    by (simp add: a numpy_var_eq sum_list_replicate)
qed

lemma get_std_zero_iff:
  assumes "get_dif self \<noteq> []"
  shows "get_std self = 0 \<longleftrightarrow> (\<forall>x\<in>set (get_dif self). x = hd (get_dif self))"
  using assms numpy_var_zero_iff [OF assms]
  by (simp add: get_std_def get_var_def numpy_sqrt_def)

text \<open>
  C7. For every non-empty timing series the standard deviation is the square root of
  the variance, and the variance is the population variance of the series: the sum of
  the squared deviations from the mean, divided by the number of elements. The variance
  is not negative, so the root is a real root and squaring it gives the variance back.
\<close>

theorem std_is_sqrt_of_variance:
  assumes "get_dif self \<noteq> []"
  shows "get_std self = sqrt (get_var self)
    \<and> get_var self =
        (\<Sum>x\<leftarrow>get_dif self. (x - sum_list (get_dif self) / real (length (get_dif self)))\<^sup>2)
          / real (length (get_dif self))
    \<and> 0 \<le> get_var self
    \<and> (get_std self)\<^sup>2 = get_var self"
proof -
  have v: "get_var self = numpy_var (get_dif self)"
    using assms by (simp add: get_var_def)
  have s: "get_std self = sqrt (get_var self)"
    using assms by (simp add: get_std_def numpy_sqrt_def)
  have nn: "0 \<le> get_var self"
    unfolding v by (rule numpy_var_nonneg)
  show ?thesis
    using s nn v numpy_var_eq [of "get_dif self"] by simp
qed

theorem std_is_sqrt_of_variance_witness:
  "get_dif (analyser [(0, FORWARD), (1, REVERSE), (2, FORWARD), (4, REVERSE)]) = [1, 2]
   \<and> get_var (analyser [(0, FORWARD), (1, REVERSE), (2, FORWARD), (4, REVERSE)]) = 1 / 4
   \<and> get_std (analyser [(0, FORWARD), (1, REVERSE), (2, FORWARD), (4, REVERSE)]) =
       sqrt (get_var (analyser [(0, FORWARD), (1, REVERSE), (2, FORWARD), (4, REVERSE)]))
   \<and> (get_std (analyser [(0, FORWARD), (1, REVERSE), (2, FORWARD), (4, REVERSE)]))\<^sup>2 = 1 / 4"
proof -
  let ?a = "analyser [(0, FORWARD), (1, REVERSE), (2, FORWARD), (4, REVERSE)]"
  have d: "get_dif ?a = [1, 2]"
    by (simp add: get_dif_analyser)
  have ne: "get_dif ?a \<noteq> []"
    by (simp add: d)
  have v: "get_var ?a = 1 / 4"
    unfolding get_var_def d by (simp add: numpy_var_def numpy_mean_def power2_eq_square)
  show ?thesis
    using std_is_sqrt_of_variance [OF ne] d v by simp
qed

section \<open>Skew of a series without spread\<close>

text \<open>
  C6. For every flow whose timing series is non-empty and whose standard deviation is
  \<open>0\<close>, the median-based skew and the mode-based skew both return \<open>-10\<close>.
\<close>

theorem skews_of_zero_std:
  assumes "get_dif self \<noteq> []" and "get_std self = 0"
  shows "get_skew self = Some (- 10) \<and> get_skew2 self = - 10"
  using assms by (simp add: get_skew_def get_skew2_def Let_def)

theorem skews_of_zero_std_witness:
  "get_dif (analyser [(0, FORWARD), (1, REVERSE), (2, FORWARD), (3, REVERSE)]) = [1, 1]
   \<and> get_std (analyser [(0, FORWARD), (1, REVERSE), (2, FORWARD), (3, REVERSE)]) = 0
   \<and> get_skew (analyser [(0, FORWARD), (1, REVERSE), (2, FORWARD), (3, REVERSE)]) = Some (- 10)
   \<and> get_skew2 (analyser [(0, FORWARD), (1, REVERSE), (2, FORWARD), (3, REVERSE)]) = - 10"
proof -
  let ?a = "analyser [(0, FORWARD), (1, REVERSE), (2, FORWARD), (3, REVERSE)]"
  have d: "get_dif ?a = [1, 1]"
    by (simp add: get_dif_analyser)
  have ne: "get_dif ?a \<noteq> []"
    by (simp add: d)
  have z: "get_std ?a = 0"
    unfolding get_std_zero_iff [OF ne] d by simp
  show ?thesis
    using skews_of_zero_std [OF ne z] d z by simp
qed

section \<open>The mode\<close>

text \<open>
  The loop of the mode, started on a candidate \<open>m\<close> with its own count and run over
  sorted distinct scores that all lie above \<open>m\<close>, ends on a value of maximal count
  among \<open>m\<close> and the scores, and on the least such value.
\<close>

lemma mode_loop_spec:
  assumes "sorted scores" and "distinct scores" and "\<forall>s\<in>set scores. m < s"
    and "c = count_list a m"
  shows "mode_loop a scores m c \<in> insert m (set scores)
    \<and> (\<forall>s\<in>insert m (set scores). count_list a s \<le> count_list a (mode_loop a scores m c))
    \<and> (\<forall>s\<in>insert m (set scores).
          count_list a s = count_list a (mode_loop a scores m c)
          \<longrightarrow> mode_loop a scores m c \<le> s)"
  using assms
proof (induction scores arbitrary: m c)
  case Nil
  then show ?case by simp
next
  case (Cons s0 rest)
  let ?k = "count_list a s0"
  have srt: "sorted rest" and dst: "distinct rest" and above: "\<forall>s\<in>set rest. s0 < s"
    and m_lt: "m < s0" and m_rest: "\<forall>s\<in>set rest. m < s"
    using Cons.prems by (auto simp: less_le)
  show ?case
  proof (cases "?k > c")
    case True
    define r where "r = mode_loop a rest s0 ?k"
    have run: "mode_loop a (s0 # rest) m c = r"
      using True by (simp add: r_def Let_def max_def)
    from Cons.IH [OF srt dst above refl]
    have ih: "r \<in> insert s0 (set rest)"
      "\<forall>s\<in>insert s0 (set rest). count_list a s \<le> count_list a r"
      "\<forall>s\<in>insert s0 (set rest). count_list a s = count_list a r \<longrightarrow> r \<le> s"
      by (simp_all add: r_def)
    have "count_list a m < count_list a r"
      using True ih(2) Cons.prems(4) by fastforce
    then show ?thesis
      unfolding run using ih by auto
  next
    case False
    define r where "r = mode_loop a rest m c"
    have run: "mode_loop a (s0 # rest) m c = r"
      using False by (simp add: r_def Let_def max_def)
    from Cons.IH [OF srt dst m_rest Cons.prems(4)]
    have ih: "r \<in> insert m (set rest)"
      "\<forall>s\<in>insert m (set rest). count_list a s \<le> count_list a r"
      "\<forall>s\<in>insert m (set rest). count_list a s = count_list a r \<longrightarrow> r \<le> s"
      by (simp_all add: r_def)
    have s0_le: "?k \<le> count_list a r"
      using False ih(2) Cons.prems(4) by fastforce
    have tie: "r \<le> s0" if "?k = count_list a r"
    proof -
      have "count_list a m = count_list a r"
        using that False ih(2) Cons.prems(4) by fastforce
      then have "r \<le> m"
        using ih(3) by simp
      then show ?thesis
        using m_lt by simp
    qed
    show ?thesis
      unfolding run using ih s0_le tie by auto
  qed
qed

lemma stat_mode_spec:
  assumes "a \<noteq> []"
  shows "stat_mode a \<in> set a
    \<and> (\<forall>y\<in>set a. count_list a y \<le> count_list a (stat_mode a))
    \<and> (\<forall>y\<in>set a. count_list a y = count_list a (stat_mode a) \<longrightarrow> stat_mode a \<le> y)"
proof -
  obtain s0 rest where sr: "sort (remdups a) = s0 # rest"
    using assms by (cases "sort (remdups a)") (auto dest: arg_cong [where f = set])
  have set_eq: "set a = insert s0 (set rest)"
    using arg_cong [OF sr, of set] by simp
  have "sorted (s0 # rest)" and "distinct (s0 # rest)"
    using sr [symmetric] by (simp_all del: sorted_wrt.simps distinct.simps)
  then have srt: "sorted rest" and dst: "distinct rest" and above: "\<forall>s\<in>set rest. s0 < s"
    by (auto simp: less_le)
  have pos: "0 < count_list a s0"
    using set_eq by (simp add: count_list_0_iff zero_less_iff_neq_zero)
  have run: "stat_mode a = mode_loop a rest s0 (count_list a s0)"
    using pos by (simp add: stat_mode_def sr Let_def max_def)
  show ?thesis
    unfolding run set_eq using mode_loop_spec [OF srt dst above refl] by simp
qed

text \<open>
  C8. On a non-empty series the mode is a value of the series that occurs at least as
  often as every other value, and among the values that occur equally often it is the
  smallest; for the series \<open>[1, 1, 2, 2]\<close> the mode is \<open>1\<close>.
\<close>

theorem mode_is_smallest_most_frequent:
  assumes "get_dif self \<noteq> []"
  shows "get_mode self \<in> set (get_dif self)
    \<and> (\<forall>y\<in>set (get_dif self).
          count_list (get_dif self) y \<le> count_list (get_dif self) (get_mode self))
    \<and> (\<forall>y\<in>set (get_dif self).
          count_list (get_dif self) y = count_list (get_dif self) (get_mode self)
          \<longrightarrow> get_mode self \<le> y)
    \<and> (get_dif self = [1, 1, 2, 2] \<longrightarrow> get_mode self = 1)"
proof -
  have m: "get_mode self = stat_mode (get_dif self)"
    using assms by (simp add: get_mode_def)
  have ex: "stat_mode [1, 1, 2, 2] = 1"
    by (simp add: stat_mode_def Let_def)
  show ?thesis
    unfolding m using stat_mode_spec [OF assms] ex by simp
qed

theorem mode_is_smallest_most_frequent_witness:
  "get_dif (analyser [(0, FORWARD), (1, REVERSE), (2, FORWARD), (3, REVERSE),
                      (4, FORWARD), (6, REVERSE), (7, FORWARD), (9, REVERSE)]) = [1, 1, 2, 2]
   \<and> get_mode (analyser [(0, FORWARD), (1, REVERSE), (2, FORWARD), (3, REVERSE),
                         (4, FORWARD), (6, REVERSE), (7, FORWARD), (9, REVERSE)]) = 1"
proof -
  let ?a = "analyser [(0, FORWARD), (1, REVERSE), (2, FORWARD), (3, REVERSE),
                      (4, FORWARD), (6, REVERSE), (7, FORWARD), (9, REVERSE)]"
  have d: "get_dif ?a = [1, 1, 2, 2]"
    by (simp add: get_dif_analyser)
  have ne: "get_dif ?a \<noteq> []"
    by (simp add: d)
  show ?thesis
    using mode_is_smallest_most_frequent [OF ne] d by simp
qed

end
